theory Spec2Isabelle
  imports Complex_Main
begin

section \<open>Transducers in C: the data model of \<^verbatim>\<open>src/main.c\<close>\<close>

text \<open>
  Pointers are flat byte addresses, the null pointer is address 0. A C \<^verbatim>\<open>float\<close> is
  modelled by a real number: the model adds and compares exactly, which is what binary32
  arithmetic does on the small whole numbers of the program's scenarios.
\<close>

type_synonym addr = nat

abbreviation NULL :: addr where
  "NULL \<equiv> 0"

abbreviation TTAG_NULL :: int where
  "TTAG_NULL \<equiv> 0"

abbreviation TTAG_FLOAT :: int where
  "TTAG_FLOAT \<equiv> 1"

record Value =
  type_tag :: int
  element_size :: nat
  address :: addr
  allocator :: addr

text \<open>
  Object sizes, as on an LP64 target. \<open>sizeof_float\<close> is the step of a cursor over floats;
  the sizes of the structs only fix where the allocator places the next block.
\<close>

definition sizeof_float :: nat where
  "sizeof_float = 4"

definition sizeof_pointer :: nat where
  "sizeof_pointer = 8"

definition sizeof_Value :: nat where
  "sizeof_Value = 32"

definition sizeof_Reducer :: nat where
  "sizeof_Reducer = 16"

definition sizeof_FilteringReducer :: nat where
  "sizeof_FilteringReducer = 32"

definition sizeof_ComposingReducer :: nat where
  "sizeof_ComposingReducer = 40"

definition sizeof_MappingReducer :: nat where
  "sizeof_MappingReducer = 64"

definition sizeof_FilteringTransducer :: nat where
  "sizeof_FilteringTransducer = 16"

definition sizeof_ComposingTransducer :: nat where
  "sizeof_ComposingTransducer = 24"

definition sizeof_MappingTransducer :: nat where
  "sizeof_MappingTransducer = 16"

text \<open>What \<^verbatim>\<open>printf\<close> writes: literal text, or a float printed with \<^verbatim>\<open>%f\<close>.\<close>

datatype printed = Text string | Number real

text \<open>
  The state the program acts on: the float objects in memory (the caller's arrays, the
  static \<^verbatim>\<open>zero\<close> of \<^verbatim>\<open>accumulateFloatZero\<close>, the payloads built by \<^verbatim>\<open>floatValue\<close>), the
  \<^verbatim>\<open>reducerResult\<close> field of every \<^verbatim>\<open>struct MappingReducer\<close> (by the address of the
  struct), the allocator's bookkeeping, and the standard output. Structs that are never
  written after their construction are held by value and take no room here.
\<close>

record world =
  floats :: "addr \<rightharpoonup> real"
  reducerResult :: "addr \<rightharpoonup> Value"
  brk :: addr
  live :: "addr \<rightharpoonup> addr"
  stdout :: "printed list"

datatype error = AssertionFailed | InvalidRead | OutOfBounds

definition nullValue :: Value where
  "nullValue = \<lparr>Value.type_tag = TTAG_NULL, Value.element_size = 0, address = NULL, allocator = NULL\<rparr>"

subsection \<open>The allocator\<close>

text \<open>
  Modelled from the spec: \<^verbatim>\<open>allocator_alloc\<close> of \<^verbatim>\<open>allocator.h\<close>, which is not among the
  sources. The allocator is "an injected capability providing \<^verbatim>\<open>alloc(size) -> memory\<close> and
  \<^verbatim>\<open>free(memory)\<close>": the call hands out the next fresh block of the size asked for and
  records which allocator gave it. An allocator is known by the address of its
  \<^verbatim>\<open>struct Allocator\<close>.
\<close>

definition allocator_alloc :: "addr \<Rightarrow> nat \<Rightarrow> world \<Rightarrow> addr \<times> world" where
  "allocator_alloc a n w =
     (brk w, w\<lparr>brk := brk w + n, live := (live w)(brk w \<mapsto> a)\<rparr>)"

text \<open>
  \<^verbatim>\<open>allocator_free\<close> of \<^verbatim>\<open>allocator.h\<close> is not among the sources, and the specification
  says of the allocator's release no more than \<^verbatim>\<open>free(memory)\<close>: \<^verbatim>\<open>freeValue\<close> takes it as
  a parameter. It is called with an allocator, an address and the state, and returns the
  new state or fails.
\<close>

definition freeValue ::
  "(addr \<Rightarrow> addr \<Rightarrow> world \<Rightarrow> error + world) \<Rightarrow> Value \<Rightarrow> world \<Rightarrow> error + Value \<times> world" where
  "freeValue allocator_free value w =
     (case allocator_free (allocator value) (address value) w of
        Inl e \<Rightarrow> Inl e
      | Inr w' \<Rightarrow> Inr (value\<lparr>address := NULL, allocator := NULL\<rparr>, w'))"

subsection \<open>Stream ranges\<close>

text \<open>
  Modelled from the spec: \<^verbatim>\<open>enum StreamErrorCode\<close> of \<^verbatim>\<open>stream_types.h\<close>, which is not among
  the sources. The stream error status is "an enumeration with at least \<^verbatim>\<open>NoError\<close> and
  \<^verbatim>\<open>ReadPastEnd\<close>"; \<open>S_Other\<close> stands for any further code.
\<close>

datatype StreamErrorCode = S_NoError | S_ReadPastEnd | S_Other nat

text \<open>The functions the \<^verbatim>\<open>next\<close> field of a range can point to.\<close>

datatype NextFn = FloatArrayNext | ZerosVSRNext

record ValueStreamRange =
  type_tag :: int
  element_size :: nat
  start :: addr
  end' :: addr
  cursor :: addr
  error :: StreamErrorCode
  "next" :: NextFn

text \<open>The address of the static buffer \<^verbatim>\<open>zeros[256]\<close> of \<^verbatim>\<open>zerosVSRNext\<close>.\<close>

definition zeros :: addr where
  "zeros = 4096"

definition zerosVSRNext :: "ValueStreamRange \<Rightarrow> StreamErrorCode \<times> ValueStreamRange" where
  "zerosVSRNext rng =
     (error rng,
      rng\<lparr>ValueStreamRange.type_tag := 0, ValueStreamRange.element_size := 1,
        start := zeros, cursor := zeros, end' := zeros + 256\<rparr>)"

text \<open>
  \<^verbatim>\<open>failVSR\<close> ends with \<^verbatim>\<open>range->next(range)\<close>, one line after it has set
  \<^verbatim>\<open>range->next = zerosVSRNext\<close>.
\<close>

definition failVSR :: "ValueStreamRange \<Rightarrow> StreamErrorCode \<Rightarrow> StreamErrorCode \<times> ValueStreamRange" where
  "failVSR rng e = zerosVSRNext (rng\<lparr>error := e, next := ZerosVSRNext\<rparr>)"

definition floatArrayNext :: "ValueStreamRange \<Rightarrow> StreamErrorCode \<times> ValueStreamRange" where
  "floatArrayNext rng = failVSR rng S_ReadPastEnd"

text \<open>The call \<^verbatim>\<open>range->next(range)\<close> through the function pointer.\<close>

definition range_next :: "ValueStreamRange \<Rightarrow> StreamErrorCode \<times> ValueStreamRange" where
  "range_next rng =
     (case next rng of
        FloatArrayNext \<Rightarrow> floatArrayNext rng
      | ZerosVSRNext \<Rightarrow> zerosVSRNext rng)"

text \<open>\<^verbatim>\<open>floatArrayVSR\<close> writes every field of the range it is given.\<close>

definition floatArrayVSR :: "ValueStreamRange \<Rightarrow> addr \<Rightarrow> nat \<Rightarrow> ValueStreamRange" where
  "floatArrayVSR rng values count =
     rng\<lparr>ValueStreamRange.type_tag := TTAG_FLOAT,
       ValueStreamRange.element_size := sizeof_float,
       start := values, cursor := values, end' := values + count * sizeof_float,
       error := S_NoError, next := FloatArrayNext\<rparr>"

text \<open>The static, zero-initialised \<^verbatim>\<open>struct Value zero\<close> of \<^verbatim>\<open>nextValueVSR\<close>.\<close>

definition nextValueVSR_zero :: Value where
  "nextValueVSR_zero = \<lparr>Value.type_tag = 0, Value.element_size = 0, address = NULL, allocator = NULL\<rparr>"

function nextValueVSR :: "ValueStreamRange \<Rightarrow> Value \<times> ValueStreamRange" where
  "nextValueVSR rng =
     (if error rng = S_NoError then
        if cursor rng < end' rng then
          (\<lparr>Value.type_tag = ValueStreamRange.type_tag rng,
            Value.element_size = ValueStreamRange.element_size rng,
            address = cursor rng, allocator = NULL\<rparr>,
           rng\<lparr>cursor := cursor rng + ValueStreamRange.element_size rng\<rparr>)
        else nextValueVSR (snd (range_next rng))
      else (nextValueVSR_zero, rng))"
  by pat_completeness auto
termination
  by (relation "measure (\<lambda>r. if error r \<noteq> S_NoError then 0 else if cursor r < end' r then 1 else 2)")
     (auto simp: range_next_def floatArrayNext_def failVSR_def zerosVSRNext_def split: NextFn.splits)

declare nextValueVSR.simps [simp del]

subsection \<open>Values and the float reducer\<close>

definition floatValue :: "real \<Rightarrow> addr \<Rightarrow> world \<Rightarrow> Value \<times> world" where
  "floatValue f a w =
     (let (result, w1) = allocator_alloc a sizeof_float w;
          w2 = w1\<lparr>floats := (floats w1)(result \<mapsto> f)\<rparr>
      in (\<lparr>Value.type_tag = TTAG_FLOAT, Value.element_size = sizeof_float,
            address = result, allocator = NULL\<rparr>, w2))"

definition accumulateFloat :: "Value \<Rightarrow> Value \<Rightarrow> addr \<Rightarrow> world \<Rightarrow> error + Value \<times> world" where
  "accumulateFloat input current a w =
     (if Value.type_tag input \<noteq> TTAG_FLOAT then Inl AssertionFailed
      else if Value.type_tag current \<noteq> TTAG_FLOAT then Inl AssertionFailed
      else
        (case floats w (address input) of
           None \<Rightarrow> Inl InvalidRead
         | Some inputFloat \<Rightarrow>
             (case floats w (address current) of
                None \<Rightarrow> Inl InvalidRead
              | Some currentFloat \<Rightarrow> Inr (floatValue (inputFloat + currentFloat) a w))))"

text \<open>The address of the static \<^verbatim>\<open>float zero\<close> of \<^verbatim>\<open>accumulateFloatZero\<close>.\<close>

definition accumulateFloatZero_zero :: addr where
  "accumulateFloatZero_zero = 4352"

definition accumulateFloatZero :: "addr \<Rightarrow> Value" where
  "accumulateFloatZero a =
     \<lparr>Value.type_tag = TTAG_FLOAT, Value.element_size = sizeof_float,
       address = accumulateFloatZero_zero, allocator = NULL\<rparr>"

definition accumulateFloatApply :: "Value \<Rightarrow> Value \<Rightarrow> addr \<Rightarrow> world \<Rightarrow> error + Value \<times> world" where
  "accumulateFloatApply input current a w = accumulateFloat input current a w"

subsection \<open>Reducers\<close>

text \<open>
  A \<^verbatim>\<open>struct Reducer\<close> is a pair of function pointers, and the structs that extend it
  add their fields: a reducer is one of the six such objects the program builds, with the
  fields \<^verbatim>\<open>step\<close> and \<^verbatim>\<open>predicate\<close> of a \<^verbatim>\<open>FilteringReducer\<close>, \<^verbatim>\<open>reducers\<close> and
  \<^verbatim>\<open>reducersResult\<close> of a \<^verbatim>\<open>ComposingReducer\<close> (the length of the arrays is
  \<^verbatim>\<open>reducersCount\<close>), \<^verbatim>\<open>reducer\<close> and \<^verbatim>\<open>step\<close> of a \<^verbatim>\<open>MappingReducer\<close>. A pointer to a
  reducer is modelled by the reducer it points to. The one field the program writes after
  a reducer is built is the \<^verbatim>\<open>reducerResult\<close> of a \<^verbatim>\<open>MappingReducer\<close>: the state keeps it
  under the address of the struct, which \<open>MappingReducer\<close> carries first, so that all
  holders of one pointer see one \<^verbatim>\<open>reducerResult\<close>. A predicate
  \<^verbatim>\<open>bool (*)(struct Value)\<close> reads the memory its Value points to. An array slot is \<open>None\<close>
  until the program writes it.
\<close>

type_synonym predicate = "Value \<Rightarrow> (addr \<rightharpoonup> real) \<Rightarrow> error + bool"

datatype Reducer =
    IdReducer
  | PrintReducer
  | AccumulateFloatReducer
  | FilteringReducer Reducer predicate
  | ComposingReducer "Reducer option list" "Value option list"
  | MappingReducer addr Reducer Reducer

definition idReducerZero :: "addr \<Rightarrow> Value" where
  "idReducerZero a = nullValue"

definition idReducerApply :: "Value \<Rightarrow> Value \<Rightarrow> addr \<Rightarrow> world \<Rightarrow> error + Value \<times> world" where
  "idReducerApply input current a w = Inr (input, w)"

definition idReducer :: "addr \<Rightarrow> world \<Rightarrow> Reducer \<times> world" where
  "idReducer a w = (let (result, w1) = allocator_alloc a sizeof_Reducer w in (IdReducer, w1))"

definition filteringReducerZero :: "addr \<Rightarrow> Value" where
  "filteringReducerZero a = nullValue"

definition composingReducerZero :: "addr \<Rightarrow> Value" where
  "composingReducerZero a = nullValue"

definition printReducerZero :: "addr \<Rightarrow> Value" where
  "printReducerZero a = nullValue"

definition printf :: "printed \<Rightarrow> world \<Rightarrow> world" where
  "printf x w = w\<lparr>stdout := stdout w @ [x]\<rparr>"

definition printReducerApply :: "Value \<Rightarrow> Value \<Rightarrow> addr \<Rightarrow> world \<Rightarrow> error + Value \<times> world" where
  "printReducerApply input current a w =
     (let w1 = (if Value.type_tag current \<noteq> 0 then printf (Text '', '') w else w)
      in if Value.type_tag input = TTAG_FLOAT then
           (case floats w1 (address input) of
              None \<Rightarrow> Inl InvalidRead
            | Some f \<Rightarrow> Inr (input, printf (Number f) w1))
         else Inr (input, printf (Text ''?'') w1))"

definition printReducer :: "addr \<Rightarrow> world \<Rightarrow> Reducer \<times> world" where
  "printReducer a w = (let (result, w1) = allocator_alloc a sizeof_Reducer w in (PrintReducer, w1))"

fun reducer_zero :: "Reducer \<Rightarrow> addr \<Rightarrow> Value"
  and mappingReducerZero :: "Reducer \<Rightarrow> addr \<Rightarrow> Value" where
  "reducer_zero IdReducer a = idReducerZero a"
| "reducer_zero PrintReducer a = printReducerZero a"
| "reducer_zero AccumulateFloatReducer a = accumulateFloatZero a"
| "reducer_zero (FilteringReducer step predicate) a = filteringReducerZero a"
| "reducer_zero (ComposingReducer reducers reducersResult) a = composingReducerZero a"
| "reducer_zero (MappingReducer self reducer step) a = mappingReducerZero step a"
| "mappingReducerZero step a = reducer_zero step a"

function reducer_apply :: "Reducer \<Rightarrow> Value \<Rightarrow> Value \<Rightarrow> addr \<Rightarrow> world \<Rightarrow> error + Value \<times> world"
  and filteringReducerApply ::
    "Reducer \<Rightarrow> predicate \<Rightarrow> Value \<Rightarrow> Value \<Rightarrow> addr \<Rightarrow> world \<Rightarrow> error + Value \<times> world"
  and composingReducerApply ::
    "Reducer option list \<Rightarrow> Value \<Rightarrow> Value \<Rightarrow> addr \<Rightarrow> world \<Rightarrow> error + Value \<times> world"
  and mappingReducerApply ::
    "addr \<Rightarrow> Reducer \<Rightarrow> Reducer \<Rightarrow> Value \<Rightarrow> Value \<Rightarrow> addr \<Rightarrow> world \<Rightarrow> error + Value \<times> world"
  where
  "reducer_apply IdReducer input current a w = idReducerApply input current a w"
| "reducer_apply PrintReducer input current a w = printReducerApply input current a w"
| "reducer_apply AccumulateFloatReducer input current a w = accumulateFloatApply input current a w"
| "reducer_apply (FilteringReducer step predicate) input current a w =
     filteringReducerApply step predicate input current a w"
| "reducer_apply (ComposingReducer reducers reducersResult) input current a w =
     composingReducerApply reducers input current a w"
| "reducer_apply (MappingReducer self reducer step) input current a w =
     mappingReducerApply self reducer step input current a w"
| "filteringReducerApply step predicate input current a w =
     (case predicate input (floats w) of
        Inl e \<Rightarrow> Inl e
      | Inr holds \<Rightarrow> if holds then reducer_apply step input current a w else Inr (current, w))"
| "composingReducerApply [] input current a w = Inl OutOfBounds"
| "composingReducerApply (None # reducers) input current a w = Inl InvalidRead"
| "composingReducerApply (Some reducer0 # reducers) input current a w =
     reducer_apply reducer0 input current a w"
| "mappingReducerApply self reducer step input current a w =
     (case reducerResult w self of
        None \<Rightarrow> Inl InvalidRead
      | Some result0 \<Rightarrow>
          (case reducer_apply reducer input result0 a w of
             Inl e \<Rightarrow> Inl e
           | Inr (result1, w1) \<Rightarrow>
               (let w2 = w1\<lparr>reducerResult := (reducerResult w1)(self \<mapsto> result1)\<rparr>
                in case reducerResult w2 self of
                     None \<Rightarrow> Inl InvalidRead
                   | Some result2 \<Rightarrow> reducer_apply step result2 current a w2)))"
  by pat_completeness auto
termination
  by (relation "measure (\<lambda>x. case x of
        Inl (Inl (r, _)) \<Rightarrow> 2 * size r + 1
      | Inl (Inr (step, _)) \<Rightarrow> 2 * size step + 2
      | Inr (Inl (rs, _)) \<Rightarrow> 2 * size_list (size_option size) rs
      | Inr (Inr (self, r, step, _)) \<Rightarrow> 2 * size r + 2 * size step + 2)") auto

subsection \<open>Driving a reducer from a stream\<close>

text \<open>
  The loop of \<^verbatim>\<open>reduceStream\<close> runs for as long as the range delivers elements, which
  can be for ever: not returning is the value \<open>None\<close>.
\<close>

partial_function (option) reduceStream_loop ::
  "ValueStreamRange \<Rightarrow> Reducer \<Rightarrow> addr \<Rightarrow> Value \<Rightarrow> world
    \<Rightarrow> (error + Value \<times> ValueStreamRange \<times> world) option" where
  "reduceStream_loop rng reducer a result w =
     (case nextValueVSR rng of
        (element, rng1) \<Rightarrow>
          if error rng1 = S_NoError then
            (case reducer_apply reducer element result a w of
               Inl e \<Rightarrow> Some (Inl e)
             | Inr (result1, w1) \<Rightarrow> reduceStream_loop rng1 reducer a result1 w1)
          else Some (Inr (result, rng1, w)))"

definition reduceStream ::
  "ValueStreamRange \<Rightarrow> Reducer \<Rightarrow> addr \<Rightarrow> world
    \<Rightarrow> (error + Value \<times> ValueStreamRange \<times> world) option" where
  "reduceStream rng reducer a w = reduceStream_loop rng reducer a (reducer_zero reducer a) w"

subsection \<open>Transducers\<close>

datatype Transducer =
    FilteringTransducer predicate
  | ComposingTransducer "Transducer list"
  | MappingTransducer Reducer

definition filteringTransducerApply :: "predicate \<Rightarrow> Reducer \<Rightarrow> addr \<Rightarrow> world \<Rightarrow> Reducer \<times> world" where
  "filteringTransducerApply predicate step a w =
     (let (result, w1) = allocator_alloc a sizeof_FilteringReducer w
      in (FilteringReducer step predicate, w1))"

definition filteringTransducer :: "predicate \<Rightarrow> addr \<Rightarrow> world \<Rightarrow> Transducer \<times> world" where
  "filteringTransducer predicate a w =
     (let (transducer, w1) = allocator_alloc a sizeof_FilteringTransducer w
      in (FilteringTransducer predicate, w1))"

definition mappingTransducerApply :: "Reducer \<Rightarrow> Reducer \<Rightarrow> addr \<Rightarrow> world \<Rightarrow> Reducer \<times> world" where
  "mappingTransducerApply reducer step a w =
     (let (result, w1) = allocator_alloc a sizeof_MappingReducer w;
          w2 = w1\<lparr>reducerResult := (reducerResult w1)(result \<mapsto> reducer_zero reducer a)\<rparr>
      in (MappingReducer result reducer step, w2))"

definition mappingTransducer :: "Reducer \<Rightarrow> addr \<Rightarrow> world \<Rightarrow> Transducer \<times> world" where
  "mappingTransducer reducer a w =
     (let (result, w1) = allocator_alloc a sizeof_MappingTransducer w
      in (MappingTransducer reducer, w1))"

definition composingTransducer :: "Transducer list \<Rightarrow> addr \<Rightarrow> world \<Rightarrow> Transducer \<times> world" where
  "composingTransducer transducers a w =
     (let (result, w1) = allocator_alloc a sizeof_ComposingTransducer w
      in (ComposingTransducer transducers, w1))"

text \<open>
  \<open>composingTransducerApply_loop\<close> is the \<^verbatim>\<open>for\<close> loop of \<^verbatim>\<open>composingTransducerApply\<close>: \<open>i\<close>
  counts up, the arrays are written at \<open>idx\<close>, and \<open>x\<close> is the reducer built last.
\<close>

function transducer_apply :: "Transducer \<Rightarrow> Reducer \<Rightarrow> addr \<Rightarrow> world \<Rightarrow> Reducer \<times> world"
  and composingTransducerApply :: "Transducer list \<Rightarrow> Reducer \<Rightarrow> addr \<Rightarrow> world \<Rightarrow> Reducer \<times> world"
  and composingTransducerApply_loop ::
    "Transducer list \<Rightarrow> nat \<Rightarrow> Reducer \<Rightarrow> Reducer option list \<Rightarrow> Value option list \<Rightarrow> addr \<Rightarrow> world
      \<Rightarrow> Reducer option list \<times> Value option list \<times> world"
  where
  "transducer_apply (FilteringTransducer predicate) step a w =
     filteringTransducerApply predicate step a w"
| "transducer_apply (ComposingTransducer transducers) step a w =
     composingTransducerApply transducers step a w"
| "transducer_apply (MappingTransducer reducer) step a w =
     mappingTransducerApply reducer step a w"
| "composingTransducerApply transducers step a w =
     (let (result, w1) = allocator_alloc a sizeof_ComposingReducer w;
          reducersCount = length transducers;
          (reducers0, w2) = allocator_alloc a (reducersCount * sizeof_pointer) w1;
          (reducersResult0, w3) = allocator_alloc a (reducersCount * sizeof_Value) w2;
          (reducers, reducersResult, w4) =
            composingTransducerApply_loop transducers 0 step
              (replicate reducersCount None) (replicate reducersCount None) a w3
      in (ComposingReducer reducers reducersResult, w4))"
| "composingTransducerApply_loop transducers i x reducers reducersResult a w =
     (if i < length transducers then
        (let idx = length transducers - 1 - i;
             (reducer, w1) = transducer_apply (transducers ! idx) x a w
         in composingTransducerApply_loop transducers (i + 1) reducer
              (reducers[idx := Some reducer])
              (reducersResult[idx := Some (reducer_zero reducer a)]) a w1)
      else (reducers, reducersResult, w))"
  by pat_completeness auto

lemma size_nth_plus: "i < length xs \<Longrightarrow> f (xs ! i) + length xs \<le> size_list f xs"
  using member_le_sum_list[of "f (xs ! i)" "map f xs"]
  by (simp add: size_list_conv_sum_list)

definition transducer_apply_measure :: "Transducer \<times> Reducer \<times> nat \<times> world +
      Transducer list \<times> Reducer \<times> nat \<times> world +
      Transducer list \<times>
      nat \<times> Reducer \<times> Reducer option list \<times> Value option list \<times> nat \<times> world \<Rightarrow> nat" where
  "transducer_apply_measure x = (case x of
        Inl p \<Rightarrow> 3 * size (fst p)
      | Inr (Inl p) \<Rightarrow> 3 * size_list size (fst p) + 2
      | Inr (Inr p) \<Rightarrow> 3 * size_list size (fst p) + 1 - fst (snd p))"

lemma measure_loop_call:
  assumes "i < length ts"
  shows "transducer_apply_measure (Inl (ts ! (length ts - 1 - i), x, a, w))
    < transducer_apply_measure (Inr (Inr (ts, i, x', rs, zs, a', w')))"
proof -
  have "length ts - 1 - i < length ts" using assms by arith
  from size_nth_plus[OF this, of size] assms show ?thesis
    by (simp add: transducer_apply_measure_def)
qed

lemma measure_loop_step:
  assumes "i < length ts"
  shows "transducer_apply_measure (Inr (Inr (ts, i + 1, x, rs, zs, a, w)))
    < transducer_apply_measure (Inr (Inr (ts, i, x', rs', zs', a', w')))"
proof -
  have "0 < length ts" using assms by arith
  from size_nth_plus[OF this, of size] assms show ?thesis
    by (simp add: transducer_apply_measure_def)
qed

termination transducer_apply
  apply (relation "measure transducer_apply_measure")
      apply (rule wf_measure)
     apply (simp add: transducer_apply_measure_def)
    apply (simp only: in_measure, simp add: transducer_apply_measure_def)
   apply (simp only: in_measure, erule ssubst, erule measure_loop_call)
  apply (simp only: in_measure, erule measure_loop_step)
  done

declare composingTransducerApply.simps [simp del]

declare composingTransducerApply_loop.simps [simp del]

subsection \<open>Driving a reducer from an array\<close>

function transduceFloatArray_loop ::
  "addr \<Rightarrow> nat \<Rightarrow> nat \<Rightarrow> Reducer \<Rightarrow> addr \<Rightarrow> Value \<Rightarrow> world \<Rightarrow> error + Value \<times> world" where
  "transduceFloatArray_loop values valuesCount i reducer a result w =
     (if i < valuesCount then
        (let value = \<lparr>Value.type_tag = TTAG_FLOAT, Value.element_size = sizeof_float,
                      address = values + i * sizeof_float, allocator = 0\<rparr>
         in case reducer_apply reducer value result a w of
              Inl e \<Rightarrow> Inl e
            | Inr (result1, w1) \<Rightarrow>
                transduceFloatArray_loop values valuesCount (i + 1) reducer a result1 w1)
      else Inr (result, w))"
  by pat_completeness auto
termination
  by (relation "measure (\<lambda>(values, valuesCount, i, reducer, a, result, w). valuesCount - i)") auto

declare transduceFloatArray_loop.simps [simp del]

definition transduceFloatArray ::
  "addr \<Rightarrow> nat \<Rightarrow> Transducer \<Rightarrow> addr \<Rightarrow> world \<Rightarrow> error + Value \<times> world" where
  "transduceFloatArray values valuesCount transducer a w =
     (let (step, w1) = idReducer a w;
          (reducer, w2) = transducer_apply transducer step a w1
      in transduceFloatArray_loop values valuesCount 0 reducer a (reducer_zero reducer a) w2)"

subsection \<open>The main program\<close>

definition positiveFloatsOnly :: predicate where
  "positiveFloatsOnly value m =
     (if Value.type_tag value = TTAG_FLOAT then
        (case m (address value) of
           None \<Rightarrow> Inl InvalidRead
         | Some f \<Rightarrow> Inr (f > 0))
      else Inr False)"

text \<open>
  The third scenario of \<^verbatim>\<open>main\<close>, from the array \<^verbatim>\<open>values\<close> to the second "result is" line.
  \<open>values\<close>, \<open>heapAllocator\<close> and \<open>valuesRange\<close> are the addresses and the first content of
  the locals of \<^verbatim>\<open>main\<close>; \<open>store_floats\<close> is the initialisation of the array.
\<close>

fun store_floats :: "addr \<Rightarrow> real list \<Rightarrow> (addr \<rightharpoonup> real) \<Rightarrow> (addr \<rightharpoonup> real)" where
  "store_floats p [] m = m"
| "store_floats p (f # fs) m = store_floats (p + sizeof_float) fs (m(p \<mapsto> f))"

definition main_3 ::
  "addr \<Rightarrow> addr \<Rightarrow> ValueStreamRange \<Rightarrow> world \<Rightarrow> (error + Value \<times> real \<times> Value \<times> real \<times> world) option" where
  "main_3 values heapAllocator valuesRange w0 =
     (let w1 = printf (Text (''3. filter out all negative floats and accumulate'' @ [CHR 0x0A])) w0;
          w2 = w1\<lparr>floats := store_floats values [- 1, 1, - 2, 2, 3, - 3, 4, - 4] (floats w1)\<rparr>;
          accumulator = AccumulateFloatReducer;
          (processSteps0, w3) = filteringTransducer positiveFloatsOnly heapAllocator w2;
          (processSteps1, w4) = mappingTransducer accumulator heapAllocator w3;
          (process, w5) = composingTransducer [processSteps0, processSteps1] heapAllocator w4;
          w6 = printf (Text ''input: '') w5;
          valuesRange1 = floatArrayVSR valuesRange values 8;
          (printer, w7) = printReducer heapAllocator w6
      in case reduceStream valuesRange1 printer heapAllocator w7 of
           None \<Rightarrow> None
         | Some (Inl e) \<Rightarrow> Some (Inl e)
         | Some (Inr (printed, valuesRange2, w8)) \<Rightarrow>
             (let w9 = printf (Text (CHR 0x0A # ''print-out: '')) w8;
                  (step, w10) = printReducer heapAllocator w9;
                  (reducer, w11) = transducer_apply process step heapAllocator w10;
                  valuesRange3 = floatArrayVSR valuesRange2 values 8
              in case reduceStream valuesRange3 reducer heapAllocator w11 of
                   None \<Rightarrow> None
                 | Some (Inl e) \<Rightarrow> Some (Inl e)
                 | Some (Inr (result, valuesRange4, w12)) \<Rightarrow>
                     (let w13 = printf (Text [CHR 0x0A]) w12
                      in case (if Value.type_tag result = TTAG_FLOAT then
                                 (case floats w13 (address result) of
                                    None \<Rightarrow> Inl InvalidRead
                                  | Some f \<Rightarrow> Inr f)
                               else Inr (- 1)) of
                           Inl e \<Rightarrow> Some (Inl e)
                         | Inr resultFloat \<Rightarrow>
                             (let w14 = printf (Text (''result is: '')) w13;
                                  w15 = printf (Number resultFloat) w14;
                                  w16 = printf (Text ('' ; expected: 10.0'' @ [CHR 0x0A])) w15;
                                  w17 = printf (Text (''transduce it again with transduceFloatArray'' @ [CHR 0x0A])) w16
                              in case transduceFloatArray values 8 process heapAllocator w17 of
                                   Inl e \<Rightarrow> Some (Inl e)
                                 | Inr (again, w18) \<Rightarrow>
                                     if Value.type_tag again \<noteq> TTAG_FLOAT then Some (Inl AssertionFailed)
                                     else
                                       (case floats w18 (address again) of
                                          None \<Rightarrow> Some (Inl InvalidRead)
                                        | Some againFloat \<Rightarrow>
                                            (let w19 = printf (Text (''result is: '')) w18;
                                                 w20 = printf (Number againFloat) w19;
                                                 w21 = printf (Text ('' ; expected: 10.0'' @ [CHR 0x0A])) w20
                                             in Some (Inr (result, resultFloat, again, againFloat, w21))))))))"

section \<open>Notions used in the statements\<close>

text \<open>
  \<open>pulls k\<close> calls \<^verbatim>\<open>nextValueVSR\<close> \<open>k\<close> times and collects what it returns.
  \<open>floatArray_element values i\<close> is the borrowed Value for \<^verbatim>\<open>values[i]\<close>. \<open>exhausted rng\<close> is
  the range \<^verbatim>\<open>failVSR(rng, S_ReadPastEnd)\<close> leaves behind. \<open>range0\<close> is a range for the examples.
\<close>

fun pulls :: "nat \<Rightarrow> ValueStreamRange \<Rightarrow> Value list \<times> ValueStreamRange" where
  "pulls 0 rng = ([], rng)"
| "pulls (Suc k) rng =
     (let (v, rng1) = nextValueVSR rng; (vs, rng2) = pulls k rng1 in (v # vs, rng2))"

definition floatArray_element :: "addr \<Rightarrow> nat \<Rightarrow> Value" where
  "floatArray_element values i =
     \<lparr>Value.type_tag = TTAG_FLOAT, Value.element_size = sizeof_float,
       address = values + i * sizeof_float, allocator = NULL\<rparr>"

definition exhausted :: "ValueStreamRange \<Rightarrow> ValueStreamRange" where
  "exhausted rng =
     rng\<lparr>ValueStreamRange.type_tag := 0, ValueStreamRange.element_size := 1,
       start := zeros, cursor := zeros, end' := zeros + 256,
       error := S_ReadPastEnd, next := ZerosVSRNext\<rparr>"

definition range0 :: ValueStreamRange where
  "range0 = \<lparr>ValueStreamRange.type_tag = 0, ValueStreamRange.element_size = 0,
     start = 0, end' = 0, cursor = 0, error = S_NoError, next = ZerosVSRNext\<rparr>"

text \<open>
  \<open>feed reducer elements\<close> applies the reducer to the elements of a list in turn, each
  result being the accumulator of the next call, and stops at the first failure.
\<close>

fun feed :: "Reducer \<Rightarrow> Value list \<Rightarrow> Value \<Rightarrow> addr \<Rightarrow> world \<Rightarrow> error + Value \<times> world" where
  "feed reducer [] result a w = Inr (result, w)"
| "feed reducer (element # elements) result a w =
     (case reducer_apply reducer element result a w of
        Inl e \<Rightarrow> Inl e
      | Inr (result1, w1) \<Rightarrow> feed reducer elements result1 a w1)"

text \<open>
  The driving algorithm as the specification writes it, with \<^verbatim>\<open>nextValueVSR\<close> for its
  \<^verbatim>\<open>pullNext\<close>: "\<^verbatim>\<open>accumulator = reducer.zero(allocator)\<close>; loop: \<^verbatim>\<open>element = pullNext(range)\<close>;
  if \<^verbatim>\<open>range.error != NoError\<close>: break;
  \<^verbatim>\<open>accumulator = reducer.apply(element, accumulator, allocator)\<close>; return \<^verbatim>\<open>accumulator\<close>".
\<close>

partial_function (option) reduce_loop ::
  "ValueStreamRange \<Rightarrow> Reducer \<Rightarrow> addr \<Rightarrow> Value \<Rightarrow> world
    \<Rightarrow> (error + Value \<times> ValueStreamRange \<times> world) option" where
  "reduce_loop rng reducer a accumulator w =
     (let (element, rng1) = nextValueVSR rng
      in if error rng1 \<noteq> S_NoError then Some (Inr (accumulator, rng1, w))
         else
           (case reducer_apply reducer element accumulator a w of
              Inl e \<Rightarrow> Some (Inl e)
            | Inr (accumulator1, w1) \<Rightarrow> reduce_loop rng1 reducer a accumulator1 w1))"

definition reduce ::
  "ValueStreamRange \<Rightarrow> Reducer \<Rightarrow> addr \<Rightarrow> world
    \<Rightarrow> (error + Value \<times> ValueStreamRange \<times> world) option" where
  "reduce rng reducer a w =
     (let accumulator = reducer_zero reducer a in reduce_loop rng reducer a accumulator w)"

text \<open>
  The chain of a composing transducer as the specification writes it:
  "\<^verbatim>\<open>chain[N-1] = transducers[N-1].apply(step)\<close>,
  \<^verbatim>\<open>chain[i] = transducers[i].apply(chain[i+1])\<close> for i = N-2..0". \<open>composing_storage\<close> is the
  state after the three allocations \<^verbatim>\<open>composingTransducerApply\<close> makes for its own struct
  and its two arrays, before it builds the chain.
\<close>

fun chain :: "Transducer list \<Rightarrow> Reducer \<Rightarrow> addr \<Rightarrow> world \<Rightarrow> Reducer list \<times> world" where
  "chain [] step a w = ([], w)"
| "chain (t # ts) step a w =
     (let (rs, w1) = chain ts step a w;
          (r, w2) = transducer_apply t (case rs of [] \<Rightarrow> step | r1 # _ \<Rightarrow> r1) a w1
      in (r # rs, w2))"

definition composing_storage :: "nat \<Rightarrow> addr \<Rightarrow> world \<Rightarrow> world" where
  "composing_storage n a w =
     (let (result, w1) = allocator_alloc a sizeof_ComposingReducer w;
          (reducers0, w2) = allocator_alloc a (n * sizeof_pointer) w1;
          (reducersResult0, w3) = allocator_alloc a (n * sizeof_Value) w2
      in w3)"

text \<open>
  \<open>world0\<close> is a state for the scenarios: the static float of \<^verbatim>\<open>accumulateFloatZero\<close> is in
  memory, the heap starts at 65536 and nothing is printed yet.
\<close>

definition world0 :: world where
  "world0 = \<lparr>floats = [accumulateFloatZero_zero \<mapsto> 0], reducerResult = Map.empty,
     brk = 65536, live = Map.empty, stdout = []\<rparr>"

text \<open>
  \<open>world1\<close> is \<open>world0\<close> with the two floats \<open>-1\<close> and \<open>1\<close> in an array at 8192, and \<open>world2\<close> is
  \<open>world1\<close> after a mapping transducer over the float accumulator has built its reducer.
\<close>

definition world1 :: world where
  "world1 = world0\<lparr>floats := store_floats 8192 [- 1, 1] (floats world0)\<rparr>"

definition world2 :: world where
  "world2 = snd (transducer_apply (MappingTransducer AccumulateFloatReducer) IdReducer 8000 world1)"

text \<open>
  Two ways \<^verbatim>\<open>allocator_free\<close> can be, for the examples: \<open>free_block\<close> releases the block
  whatever allocator it is called with, and \<open>free_through\<close> goes through the allocator's
  struct, which a null pointer does not lead to.
\<close>

definition free_block :: "addr \<Rightarrow> addr \<Rightarrow> world \<Rightarrow> error + world" where
  "free_block a p w = Inr (w\<lparr>floats := (floats w)(p := None), live := (live w)(p := None)\<rparr>)"

definition free_through :: "addr \<Rightarrow> addr \<Rightarrow> world \<Rightarrow> error + world" where
  "free_through a p w = (if a = NULL then Inl InvalidRead else free_block a p w)"

section \<open>The pull operation\<close>

text \<open>
  C2: one call of \<^verbatim>\<open>nextValueVSR\<close>. While the range has no error and the cursor is below
  the end, it returns a borrowed Value (tag and element size of the range, the old cursor
  as address, no allocator) and advances the cursor by the element size. With no error and
  the cursor at the end, it calls the range's \<^verbatim>\<open>next\<close> and retries: after \<^verbatim>\<open>floatArrayNext\<close>
  the retry returns the sentinel and leaves the range exhausted, after \<^verbatim>\<open>zerosVSRNext\<close> it
  returns the first byte of the zero segment. With an error, it returns the Null-tagged
  sentinel and leaves the range as it is.
\<close>

theorem nextValueVSR_pull:
  "(error rng = S_NoError \<and> cursor rng < end' rng \<longrightarrow>
      nextValueVSR rng =
        (\<lparr>Value.type_tag = ValueStreamRange.type_tag rng,
           Value.element_size = ValueStreamRange.element_size rng,
           address = cursor rng, allocator = NULL\<rparr>,
         rng\<lparr>cursor := cursor rng + ValueStreamRange.element_size rng\<rparr>))
   \<and> (error rng = S_NoError \<and> \<not> cursor rng < end' rng \<longrightarrow>
      nextValueVSR rng = nextValueVSR (snd (range_next rng)))
   \<and> (error rng = S_NoError \<and> \<not> cursor rng < end' rng \<and> next rng = FloatArrayNext \<longrightarrow>
      nextValueVSR rng = (nextValueVSR_zero, exhausted rng))
   \<and> (error rng = S_NoError \<and> \<not> cursor rng < end' rng \<and> next rng = ZerosVSRNext \<longrightarrow>
      nextValueVSR rng =
        (\<lparr>Value.type_tag = 0, Value.element_size = 1, address = zeros, allocator = NULL\<rparr>,
         rng\<lparr>ValueStreamRange.type_tag := 0, ValueStreamRange.element_size := 1,
           start := zeros, cursor := zeros + 1, end' := zeros + 256\<rparr>))
   \<and> (error rng \<noteq> S_NoError \<longrightarrow>
      nextValueVSR rng = (nextValueVSR_zero, rng)
      \<and> Value.type_tag nextValueVSR_zero = TTAG_NULL)"
  by (simp add: nextValueVSR.simps range_next_def floatArrayNext_def failVSR_def zerosVSRNext_def
      exhausted_def nextValueVSR_zero_def)

theorem nextValueVSR_pull_witness:
  "nextValueVSR (floatArrayVSR range0 1000 2)
     = (floatArray_element 1000 0, floatArrayVSR range0 1000 2\<lparr>cursor := 1004\<rparr>)
   \<and> nextValueVSR (floatArrayVSR range0 1000 0)
       = nextValueVSR (snd (range_next (floatArrayVSR range0 1000 0)))
   \<and> nextValueVSR (floatArrayVSR range0 1000 0) = (nextValueVSR_zero, exhausted range0)
   \<and> nextValueVSR range0
       = (\<lparr>Value.type_tag = 0, Value.element_size = 1, address = zeros, allocator = NULL\<rparr>,
          range0\<lparr>ValueStreamRange.type_tag := 0, ValueStreamRange.element_size := 1,
            start := zeros, cursor := zeros + 1, end' := zeros + 256\<rparr>)
   \<and> nextValueVSR (exhausted range0) = (nextValueVSR_zero, exhausted range0)"
proof -
  note defs = floatArrayVSR_def range0_def exhausted_def floatArray_element_def sizeof_float_def
  have 1: "nextValueVSR (floatArrayVSR range0 1000 2)
     = (floatArray_element 1000 0, floatArrayVSR range0 1000 2\<lparr>cursor := 1004\<rparr>)"
    using nextValueVSR_pull[of "floatArrayVSR range0 1000 2", THEN conjunct1]
    by (simp add: defs)
  have 2: "nextValueVSR (floatArrayVSR range0 1000 0)
       = nextValueVSR (snd (range_next (floatArrayVSR range0 1000 0)))"
    by (rule nextValueVSR_pull[of "floatArrayVSR range0 1000 0", THEN conjunct2, THEN conjunct1, THEN mp])
      (simp add: defs)
  have 3: "nextValueVSR (floatArrayVSR range0 1000 0) = (nextValueVSR_zero, exhausted range0)"
    using nextValueVSR_pull[of "floatArrayVSR range0 1000 0", THEN conjunct2, THEN conjunct2, THEN conjunct1]
    by (simp add: defs)
  have 4: "nextValueVSR range0
       = (\<lparr>Value.type_tag = 0, Value.element_size = 1, address = zeros, allocator = NULL\<rparr>,
          range0\<lparr>ValueStreamRange.type_tag := 0, ValueStreamRange.element_size := 1,
            start := zeros, cursor := zeros + 1, end' := zeros + 256\<rparr>)"
    by (rule nextValueVSR_pull[of range0, THEN conjunct2, THEN conjunct2, THEN conjunct2,
          THEN conjunct1, THEN mp])
      (simp add: range0_def)
  have 5: "nextValueVSR (exhausted range0) = (nextValueVSR_zero, exhausted range0)"
    using nextValueVSR_pull[of "exhausted range0", THEN conjunct2, THEN conjunct2, THEN conjunct2,
        THEN conjunct2]
    by (simp add: exhausted_def)
  show ?thesis by (intro conjI) (rule 1, rule 2, rule 3, rule 4, rule 5)
qed

section \<open>Exhaustion of a float array stream\<close>

lemma nextValueVSR_element:
  assumes "j < n"
  shows "nextValueVSR (floatArrayVSR rng values n\<lparr>cursor := values + j * sizeof_float\<rparr>)
    = (floatArray_element values j,
       floatArrayVSR rng values n\<lparr>cursor := values + Suc j * sizeof_float\<rparr>)"
  using assms by (simp add: nextValueVSR.simps floatArrayVSR_def floatArray_element_def sizeof_float_def)

lemma nextValueVSR_end:
  "nextValueVSR (floatArrayVSR rng values n\<lparr>cursor := values + n * sizeof_float\<rparr>)
    = (nextValueVSR_zero, exhausted rng)"
  by (simp add: nextValueVSR.simps floatArrayVSR_def range_next_def floatArrayNext_def failVSR_def
      zerosVSRNext_def exhausted_def)

lemma nextValueVSR_exhausted: "nextValueVSR (exhausted rng) = (nextValueVSR_zero, exhausted rng)"
  by (simp add: nextValueVSR.simps exhausted_def)

lemma floatArrayVSR_cursor:
  "floatArrayVSR rng values n\<lparr>cursor := values\<rparr> = floatArrayVSR rng values n"
  by (simp add: floatArrayVSR_def)

lemma pulls_elements:
  "j + k \<le> n \<Longrightarrow>
   pulls k (floatArrayVSR rng values n\<lparr>cursor := values + j * sizeof_float\<rparr>)
     = (map (floatArray_element values) [j..<j + k],
        floatArrayVSR rng values n\<lparr>cursor := values + (j + k) * sizeof_float\<rparr>)"
proof (induction k arbitrary: j)
  case 0
  then show ?case by simp
next
  case (Suc k)
  have "j < n" using Suc.prems by arith
  moreover have "Suc j + k \<le> n" using Suc.prems by arith
  ultimately show ?case
    using Suc.IH[of "Suc j"] by (simp add: nextValueVSR_element upt_rec[of j])
qed

lemma pulls_exhausted: "pulls k (exhausted rng) = (replicate k nextValueVSR_zero, exhausted rng)"
  by (induction k) (simp_all add: nextValueVSR_exhausted)

lemma pulls_add:
  "pulls (a + b) rng =
     (let (vs, rng1) = pulls a rng; (ws, rng2) = pulls b rng1 in (vs @ ws, rng2))"
  by (induction a arbitrary: rng) (simp_all add: split_beta Let_def)

lemma pulls_floatArrayVSR_upto:
  "k \<le> n \<Longrightarrow>
   pulls k (floatArrayVSR rng values n)
     = (map (floatArray_element values) [0..<k],
        floatArrayVSR rng values n\<lparr>cursor := values + k * sizeof_float\<rparr>)"
  using pulls_elements[where j = 0 and k = k and n = n]
  by (simp add: floatArrayVSR_cursor)

lemma pulls_floatArrayVSR_beyond:
  "pulls (n + Suc m) (floatArrayVSR rng values n)
     = (map (floatArray_element values) [0..<n] @ replicate (Suc m) nextValueVSR_zero,
        exhausted rng)"
  unfolding pulls_add[of n "Suc m"]
  by (simp add: pulls_floatArrayVSR_upto nextValueVSR_end pulls_exhausted)

text \<open>
  C3: a range made by \<^verbatim>\<open>floatArrayVSR\<close> over \<open>n\<close> floats. The first \<open>n\<close> pulls return the
  \<open>n\<close> elements in order, and the error stays \<^verbatim>\<open>S_NoError\<close> through them. Pull \<open>n + 1\<close>
  returns the sentinel and leaves the exhausted range, whose error is \<^verbatim>\<open>S_ReadPastEnd\<close>.
  Every later pull returns the sentinel again and leaves that same range: the error
  stays, the sentinel refers to no address, and the cursor rests at the start of the zero
  segment installed by \<^verbatim>\<open>failVSR\<close>. The only addresses the pulls hand out are those of the
  \<open>n\<close> floats, each inside the buffer.
\<close>

theorem floatArrayVSR_exhaustion:
  "fst (pulls n (floatArrayVSR rng values n)) = map (floatArray_element values) [0..<n]
   \<and> (\<forall>k\<le>n. error (snd (pulls k (floatArrayVSR rng values n))) = S_NoError)
   \<and> (\<forall>m. pulls (n + Suc m) (floatArrayVSR rng values n)
          = (map (floatArray_element values) [0..<n] @ replicate (Suc m) nextValueVSR_zero,
             exhausted rng))
   \<and> error (exhausted rng) = S_ReadPastEnd
   \<and> nextValueVSR (exhausted rng) = (nextValueVSR_zero, exhausted rng)
   \<and> address nextValueVSR_zero = NULL
   \<and> start (exhausted rng) \<le> cursor (exhausted rng)
   \<and> cursor (exhausted rng) \<le> end' (exhausted rng)
   \<and> (\<forall>i<n. values \<le> address (floatArray_element values i)
          \<and> address (floatArray_element values i) + sizeof_float \<le> values + n * sizeof_float)"
proof -
  have "\<forall>k\<le>n. error (snd (pulls k (floatArrayVSR rng values n))) = S_NoError"
    by (simp add: pulls_floatArrayVSR_upto) (simp add: floatArrayVSR_def)
  moreover have "error (exhausted rng) = S_ReadPastEnd"
    "start (exhausted rng) \<le> cursor (exhausted rng)"
    "cursor (exhausted rng) \<le> end' (exhausted rng)"
    "address nextValueVSR_zero = NULL"
    by (simp_all add: exhausted_def nextValueVSR_zero_def)
  moreover have "\<forall>i<n. values \<le> address (floatArray_element values i)
      \<and> address (floatArray_element values i) + sizeof_float \<le> values + n * sizeof_float"
    by (simp add: floatArray_element_def sizeof_float_def)
  ultimately show ?thesis
    using pulls_floatArrayVSR_beyond[of n _ rng] pulls_floatArrayVSR_upto[of n n rng]
      nextValueVSR_exhausted[of rng]
    by (simp)
qed

theorem floatArrayVSR_exhaustion_witness:
  "fst (pulls 2 (floatArrayVSR range0 1000 2))
     = [floatArray_element 1000 0, floatArray_element 1000 1]
   \<and> error (snd (pulls 1 (floatArrayVSR range0 1000 2))) = S_NoError
   \<and> error (snd (pulls 2 (floatArrayVSR range0 1000 2))) = S_NoError
   \<and> pulls 3 (floatArrayVSR range0 1000 2)
       = ([floatArray_element 1000 0, floatArray_element 1000 1, nextValueVSR_zero],
          exhausted range0)
   \<and> pulls 5 (floatArrayVSR range0 1000 2)
       = ([floatArray_element 1000 0, floatArray_element 1000 1, nextValueVSR_zero,
           nextValueVSR_zero, nextValueVSR_zero], exhausted range0)
   \<and> error (exhausted range0) = S_ReadPastEnd"
proof -
  note t = floatArrayVSR_exhaustion[where n = 2 and rng = range0, of 1000]
  have e: "[0..<2] = [0, Suc 0]" by (simp add: upt_rec)
  from t have a: "fst (pulls 2 (floatArrayVSR range0 1000 2)) = map (floatArray_element 1000) [0..<2]"
    by (rule conjunct1)
  from t have b: "\<forall>k\<le>2. error (snd (pulls k (floatArrayVSR range0 1000 2))) = S_NoError"
    by (elim conjE)
  from t have c: "\<forall>m. pulls (2 + Suc m) (floatArrayVSR range0 1000 2)
          = (map (floatArray_element 1000) [0..<2] @ replicate (Suc m) nextValueVSR_zero,
             exhausted range0)"
    by (elim conjE)
  from t have d: "error (exhausted range0) = S_ReadPastEnd"
    by (elim conjE)
  have n3: "(2::nat) + Suc 0 = 3" and n5: "(2::nat) + Suc 2 = 5" by simp_all
  show ?thesis
    using a b[rule_format, of 1] b[rule_format, of 2] c[rule_format, of 0] c[rule_format, of 2] d
    unfolding n3 n5 e
    by (simp add: numeral_2_eq_2 del: pulls.simps)
qed

section \<open>The driving loops\<close>

lemma reduceStream_loop_le:
  "reduceStream_loop rng reducer a result w = Some y \<Longrightarrow> reduce_loop rng reducer a result w = Some y"
proof (induct rule: reduceStream_loop.raw_induct[rotated 1, consumes 1, case_names step])
  case (step f rng reducer a result w y)
  from step(2) show ?case
    by (subst reduce_loop.simps) (auto split: prod.splits sum.splits if_splits dest: step(1))
qed

lemma reduce_loop_le:
  "reduce_loop rng reducer a result w = Some y \<Longrightarrow> reduceStream_loop rng reducer a result w = Some y"
proof (induct rule: reduce_loop.raw_induct[rotated 1, consumes 1, case_names step])
  case (step f rng reducer a result w y)
  from step(2) show ?case
    by (subst reduceStream_loop.simps) (auto split: prod.splits sum.splits if_splits dest: step(1))
qed

lemma reduceStream_loop_eq: "reduceStream_loop rng reducer a result w = reduce_loop rng reducer a result w"
proof (cases "reduceStream_loop rng reducer a result w")
  case None
  then show ?thesis
    using reduce_loop_le[of rng reducer a result w] by (cases "reduce_loop rng reducer a result w") auto
next
  case (Some y)
  then show ?thesis using reduceStream_loop_le by simp
qed

lemma error_floatArrayVSR_cursor [simp]: "error (floatArrayVSR rng values n\<lparr>cursor := c\<rparr>) = S_NoError"
  by (simp add: floatArrayVSR_def)

lemma error_exhausted [simp]: "error (exhausted rng) = S_ReadPastEnd"
  by (simp add: exhausted_def)

lemma reduceStream_loop_floatArray:
  "j \<le> n \<Longrightarrow>
   reduceStream_loop (floatArrayVSR rng values n\<lparr>cursor := values + j * sizeof_float\<rparr>) reducer a result w
     = Some (case feed reducer (map (floatArray_element values) [j..<n]) result a w of
               Inl e \<Rightarrow> Inl e
             | Inr (v, w') \<Rightarrow> Inr (v, exhausted rng, w'))"
proof (induction "n - j" arbitrary: j result w)
  case 0
  then have "j = n" by simp
  then show ?case
    by (subst reduceStream_loop.simps) (simp add: nextValueVSR_end)
next
  case (Suc k)
  then have lt: "j < n" and k: "k = n - Suc j" and le: "Suc j \<le> n" by arith+
  show ?case
  proof (cases "reducer_apply reducer (floatArray_element values j) result a w")
    case (Inl e)
    then show ?thesis
      using lt by (subst reduceStream_loop.simps) (simp add: nextValueVSR_element upt_rec[of j])
  next
    case (Inr p)
    obtain result1 w1 where p: "p = (result1, w1)" by (cases p)
    show ?thesis
      using lt Inr p Suc.hyps(1)[OF k le, of result1 w1]
      by (subst reduceStream_loop.simps) (simp add: nextValueVSR_element upt_rec[of j])
  qed
qed

lemma reduceStream_floatArrayVSR:
  "reduceStream (floatArrayVSR rng values n) reducer a w
     = Some (case feed reducer (map (floatArray_element values) [0..<n]) (reducer_zero reducer a) a w of
               Inl e \<Rightarrow> Inl e
             | Inr (v, w') \<Rightarrow> Inr (v, exhausted rng, w'))"
  using reduceStream_loop_floatArray[where j = 0 and n = n]
  by (simp add: reduceStream_def floatArrayVSR_cursor)

lemma transduceFloatArray_loop_feed:
  "transduceFloatArray_loop values n j reducer a result w
     = feed reducer (map (floatArray_element values) [j..<n]) result a w"
proof (induction "values" n j reducer a result w rule: transduceFloatArray_loop.induct)
  case (1 "values" n j reducer a result w)
  show ?case
  proof (cases "j < n")
    case True
    have v: "\<lparr>Value.type_tag = TTAG_FLOAT, Value.element_size = sizeof_float,
        address = values + j * sizeof_float, allocator = 0\<rparr> = floatArray_element values j"
      by (simp add: floatArray_element_def)
    from True show ?thesis
      using 1
      by (subst transduceFloatArray_loop.simps)
        (auto simp: v upt_rec[of j] split: sum.splits)
  next
    case False
    then show ?thesis by (subst transduceFloatArray_loop.simps) simp
  qed
qed

text \<open>
  C1: \<^verbatim>\<open>reduceStream\<close> is the driving algorithm of the specification, on every range,
  reducer, allocator and state: it starts from the reducer's zero, pulls one element at a
  time, stops at the first pull that leaves an error in the range without applying the
  reducer to the sentinel, and otherwise replaces the accumulator by the reducer's result.
  Both return the same result, or both never return. On a float array of \<open>n\<close> elements it
  returns, and the result is the reducer's fold over the \<open>n\<close> elements in order.
\<close>

theorem reduceStream_is_reduce:
  "reduceStream rng reducer a w = reduce rng reducer a w
   \<and> reduceStream (floatArrayVSR rng values n) reducer a w
       = Some (case feed reducer (map (floatArray_element values) [0..<n]) (reducer_zero reducer a) a w of
                 Inl e \<Rightarrow> Inl e
               | Inr (v, w') \<Rightarrow> Inr (v, exhausted rng, w'))"
proof
  show "reduceStream rng reducer a w = reduce rng reducer a w"
    by (simp add: reduceStream_def reduce_def reduceStream_loop_eq)
  show "reduceStream (floatArrayVSR rng values n) reducer a w
       = Some (case feed reducer (map (floatArray_element values) [0..<n]) (reducer_zero reducer a) a w of
                 Inl e \<Rightarrow> Inl e
               | Inr (v, w') \<Rightarrow> Inr (v, exhausted rng, w'))"
    by (rule reduceStream_floatArrayVSR)
qed

text \<open>
  C10: \<^verbatim>\<open>transduceFloatArray\<close> returns what \<^verbatim>\<open>reduceStream\<close> returns on the stream of the
  same array, driven with the reducer that the same transducer builds on the identity
  reducer: the same accumulator Value, in the same final state.
\<close>

theorem transduceFloatArray_reduceStream:
  "(case idReducer a w of
      (step, w1) \<Rightarrow>
        (case transducer_apply transducer step a w1 of
           (reducer, w2) \<Rightarrow> reduceStream (floatArrayVSR rng values n) reducer a w2))
   = Some (case transduceFloatArray values n transducer a w of
             Inl e \<Rightarrow> Inl e
           | Inr (v, w') \<Rightarrow> Inr (v, exhausted rng, w'))"
  by (simp add: transduceFloatArray_def reduceStream_floatArrayVSR transduceFloatArray_loop_feed
      split: prod.splits)

section \<open>The composing transducer\<close>

lemma loop_chain:
  "chain suf step a w0 = (cs, w) \<Longrightarrow>
   composingTransducerApply_loop (pre @ suf) (length suf) (case cs of [] \<Rightarrow> step | c # _ \<Rightarrow> c)
       (replicate (length pre) None @ map Some cs)
       (replicate (length pre) None @ map (\<lambda>r. Some (reducer_zero r a)) cs) a w
     = (let (full, w') = chain (pre @ suf) step a w0
        in (map Some full, map (\<lambda>r. Some (reducer_zero r a)) full, w'))"
proof (induction pre arbitrary: suf cs w rule: rev_induct)
  case Nil
  then show ?case by (subst composingTransducerApply_loop.simps) simp
next
  case (snoc t pre)
  let ?x = "case cs of [] \<Rightarrow> step | c # _ \<Rightarrow> c"
  obtain r w1 where r: "transducer_apply t ?x a w = (r, w1)" by (cases "transducer_apply t ?x a w")
  have c: "chain (t # suf) step a w0 = (r # cs, w1)" using snoc.prems r by simp
  have idx: "length ((pre @ [t]) @ suf) - 1 - length suf = length pre" by simp
  have nth: "((pre @ [t]) @ suf) ! length pre = t" by (simp add: nth_append)
  have u1: "(replicate (length (pre @ [t])) None @ map Some cs)[length pre := Some r]
      = replicate (length pre) None @ map Some (r # cs)"
    by (simp add: replicate_append_same[symmetric] list_update_append)
  have u2: "(replicate (length (pre @ [t])) None @ map (\<lambda>r. Some (reducer_zero r a)) cs)
        [length pre := Some (reducer_zero r a)]
      = replicate (length pre) None @ map (\<lambda>r. Some (reducer_zero r a)) (r # cs)"
    by (simp add: replicate_append_same[symmetric] list_update_append)
  have lt: "length suf < length ((pre @ [t]) @ suf)" by simp
  show ?case
    apply (subst composingTransducerApply_loop.simps)
    apply (simp only: lt if_True Let_def idx nth r prod.case u1 u2)
    using snoc.IH[OF c] apply simp
    done
qed

lemma composingTransducerApply_chain:
  "composingTransducerApply ts step a w =
     (let (rs, w') = chain ts step a (composing_storage (length ts) a w)
      in (ComposingReducer (map Some rs) (map (\<lambda>r. Some (reducer_zero r a)) rs), w'))"
  using loop_chain[of "[]" step a "composing_storage (length ts) a w" "[]" _ ts]
  by (simp add: composingTransducerApply.simps composing_storage_def split_beta Let_def)

lemma feed_composing:
  "feed (ComposingReducer (Some r0 # rs) zs) xs acc a w = feed r0 xs acc a w"
  by (induction xs arbitrary: acc w) (simp_all split: sum.splits)

lemma length_chain: "length (fst (chain ts step a w)) = length ts"
  by (induction ts) (simp_all add: split_beta)

text \<open>
  C4, as stated, fails on the empty array of transducers, which \<^verbatim>\<open>composingTransducer\<close>
  accepts: the chain is empty, the arrays of the composing reducer have no slot, and its
  apply, which reads slot 0, fails instead of forwarding.
\<close>

theorem composing_empty_counterexample:
  "transducer_apply (ComposingTransducer []) IdReducer 8000 world1
     = (ComposingReducer [] [], composing_storage 0 8000 world1)
   \<and> fst (chain [] IdReducer 8000 (composing_storage 0 8000 world1)) = []
   \<and> reducer_apply (fst (transducer_apply (ComposingTransducer []) IdReducer 8000 world1))
        (floatArray_element 8192 1) nullValue 8000 (composing_storage 0 8000 world1)
     = Inl OutOfBounds"
  by (simp add: composingTransducerApply_chain)

text \<open>
  C4, amended: for every array of transducers and every step, \<^verbatim>\<open>composingTransducerApply\<close>
  first takes its own storage and then builds the chain of the specification, from the
  last transducer to the first; the reducer it returns holds that chain, and its zero is
  the Null Value. When the array has at least one transducer, the apply of that reducer
  forwards input and accumulator to the first reducer of the chain, on one element and so
  on every sequence of elements. For two transducers \<open>A\<close> and \<open>B\<close> the chain is
  \<open>A.apply(B.apply(step))\<close> over \<open>B.apply(step)\<close>, and feeding any elements to the composed
  reducer returns, from any state, what feeding them to \<open>A.apply(B.apply(step))\<close> returns.
\<close>

theorem composing_transducer_nonempty:
  "transducer_apply (ComposingTransducer ts) step a w =
     (let (rs, w') = chain ts step a (composing_storage (length ts) a w)
      in (ComposingReducer (map Some rs) (map (\<lambda>r. Some (reducer_zero r a)) rs), w'))
   \<and> (ts \<noteq> [] \<longrightarrow>
        reducer_apply (fst (transducer_apply (ComposingTransducer ts) step a w)) input current a' w'
          = reducer_apply (hd (fst (chain ts step a (composing_storage (length ts) a w))))
              input current a' w')
   \<and> (ts \<noteq> [] \<longrightarrow>
        feed (fst (transducer_apply (ComposingTransducer ts) step a w)) xs current a' w'
          = feed (hd (fst (chain ts step a (composing_storage (length ts) a w))))
              xs current a' w')
   \<and> (let (rb, w1) = transducer_apply B step a (composing_storage 2 a w);
           (ra, w2) = transducer_apply A rb a w1;
           composed = ComposingReducer [Some ra, Some rb]
             [Some (reducer_zero ra a), Some (reducer_zero rb a)]
       in transducer_apply (ComposingTransducer [A, B]) step a w = (composed, w2)
          \<and> (\<forall>xs acc a' w'. feed composed xs acc a' w' = feed ra xs acc a' w'))
   \<and> reducer_zero (fst (transducer_apply (ComposingTransducer ts) step a w)) a' = nullValue"
proof -
  let ?rs = "fst (chain ts step a (composing_storage (length ts) a w))"
  have fwd: "ts \<noteq> [] \<longrightarrow>
      reducer_apply (fst (transducer_apply (ComposingTransducer ts) step a w)) input current a' w'
        = reducer_apply (hd ?rs) input current a' w'
      \<and> feed (fst (transducer_apply (ComposingTransducer ts) step a w)) xs current a' w'
        = feed (hd ?rs) xs current a' w'"
  proof
    assume "ts \<noteq> []"
    then have "?rs \<noteq> []" using length_chain[of ts step a "composing_storage (length ts) a w"] by auto
    then obtain r0 rest where rs: "?rs = r0 # rest" by (cases ?rs) auto
    show "reducer_apply (fst (transducer_apply (ComposingTransducer ts) step a w)) input current a' w'
        = reducer_apply (hd ?rs) input current a' w'
      \<and> feed (fst (transducer_apply (ComposingTransducer ts) step a w)) xs current a' w'
        = feed (hd ?rs) xs current a' w'"
      by (simp add: composingTransducerApply_chain split_beta rs feed_composing)
  qed
  have rest: "transducer_apply (ComposingTransducer ts) step a w =
     (let (rs, w') = chain ts step a (composing_storage (length ts) a w)
      in (ComposingReducer (map Some rs) (map (\<lambda>r. Some (reducer_zero r a)) rs), w'))
   \<and> (let (rb, w1) = transducer_apply B step a (composing_storage 2 a w);
           (ra, w2) = transducer_apply A rb a w1;
           composed = ComposingReducer [Some ra, Some rb]
             [Some (reducer_zero ra a), Some (reducer_zero rb a)]
       in transducer_apply (ComposingTransducer [A, B]) step a w = (composed, w2)
          \<and> (\<forall>xs acc a' w'. feed composed xs acc a' w' = feed ra xs acc a' w'))
   \<and> reducer_zero (fst (transducer_apply (ComposingTransducer ts) step a w)) a' = nullValue"
    by (simp add: composingTransducerApply_chain feed_composing split_beta Let_def
        composingReducerZero_def numeral_2_eq_2)
  from fwd rest show ?thesis by blast
qed

theorem composing_transducer_nonempty_witness:
  "[FilteringTransducer positiveFloatsOnly] \<noteq> []
   \<and> reducer_apply
        (fst (transducer_apply (ComposingTransducer [FilteringTransducer positiveFloatsOnly])
               IdReducer 8000 world1))
        (floatArray_element 8192 1) nullValue 8000 world1
     = Inr (floatArray_element 8192 1, world1)
   \<and> feed
        (fst (transducer_apply (ComposingTransducer [FilteringTransducer positiveFloatsOnly])
               IdReducer 8000 world1))
        [floatArray_element 8192 0, floatArray_element 8192 1] nullValue 8000 world1
     = Inr (floatArray_element 8192 1, world1)"
proof -
  let ?ts = "[FilteringTransducer positiveFloatsOnly]"
  let ?c = "fst (transducer_apply (ComposingTransducer ?ts) IdReducer 8000 world1)"
  let ?h = "hd (fst (chain ?ts IdReducer 8000 (composing_storage (length ?ts) 8000 world1)))"
  note defs = world1_def world0_def floatArray_element_def sizeof_float_def positiveFloatsOnly_def
    accumulateFloatZero_zero_def
  have ne: "?ts \<noteq> []" by simp
  have h: "?h = FilteringReducer IdReducer positiveFloatsOnly"
    by (simp add: filteringTransducerApply_def split_beta)
  have 1: "reducer_apply ?c (floatArray_element 8192 1) nullValue 8000 world1
      = reducer_apply ?h (floatArray_element 8192 1) nullValue 8000 world1"
    by (rule composing_transducer_nonempty[THEN conjunct2, THEN conjunct1, THEN mp, OF ne])
  have 2: "feed ?c [floatArray_element 8192 0, floatArray_element 8192 1] nullValue 8000 world1
      = feed ?h [floatArray_element 8192 0, floatArray_element 8192 1] nullValue 8000 world1"
    by (rule composing_transducer_nonempty[THEN conjunct2, THEN conjunct2, THEN conjunct1, THEN mp,
          OF ne])
  have e1: "reducer_apply (FilteringReducer IdReducer positiveFloatsOnly)
      (floatArray_element 8192 1) nullValue 8000 world1 = Inr (floatArray_element 8192 1, world1)"
    by (simp add: defs idReducerApply_def)
  have e2: "feed (FilteringReducer IdReducer positiveFloatsOnly)
      [floatArray_element 8192 0, floatArray_element 8192 1] nullValue 8000 world1
      = Inr (floatArray_element 8192 1, world1)"
    by (simp add: defs idReducerApply_def)
  show ?thesis
    unfolding 1 2 h by (intro conjI ne e1 e2)
qed

section \<open>The filtering transducer\<close>

lemma reducer_apply_keeps:
  "reducer_apply r i c a w = Inr (c', w') \<Longrightarrow>
     brk w \<le> brk w' \<and> (\<forall>p<brk w. floats w' p = floats w p)"
proof (induction r arbitrary: i c a w c' w')
  case IdReducer
  then show ?case by (simp add: idReducerApply_def)
next
  case PrintReducer
  then show ?case
    by (auto simp: printReducerApply_def printf_def Let_def split: if_splits option.splits)
next
  case AccumulateFloatReducer
  then show ?case
    by (auto simp: accumulateFloatApply_def accumulateFloat_def floatValue_def allocator_alloc_def
        split: if_splits option.splits)
next
  case (FilteringReducer step predicate)
  then show ?case by (auto split: sum.splits if_splits)
next
  case (ComposingReducer reducers reducersResult)
  show ?case
  proof (cases reducers)
    case Nil
    then show ?thesis using ComposingReducer.prems by simp
  next
    case (Cons r0 rs)
    show ?thesis
    proof (cases r0)
      case None
      then show ?thesis using ComposingReducer.prems Cons by simp
    next
      case (Some r)
      then show ?thesis
        using ComposingReducer.prems Cons ComposingReducer.IH[of r0 r i c a w c' w'] by simp
    qed
  qed
next
  case (MappingReducer self reducer step)
  from MappingReducer.prems obtain result0 result1 w1 where
    r0: "reducerResult w self = Some result0"
    and r1: "reducer_apply reducer i result0 a w = Inr (result1, w1)"
    and r2: "reducer_apply step result1 c a (w1\<lparr>reducerResult := (reducerResult w1)(self \<mapsto> result1)\<rparr>)
        = Inr (c', w')"
    by (auto split: option.splits sum.splits)
  from MappingReducer.IH(1)[OF r1] MappingReducer.IH(2)[OF r2]
  show ?case by auto
qed

lemma feed_filtering:
  assumes "\<forall>x\<in>set xs. \<forall>m. (\<forall>p<brk w. m p = floats w p) \<longrightarrow> predicate x m = Inr (q x)"
  shows "feed (FilteringReducer step predicate) xs c a w = feed step (filter q xs) c a w"
  using assms
proof (induction xs arbitrary: c w)
  case Nil
  then show ?case by simp
next
  case (Cons x xs)
  have px: "predicate x (floats w) = Inr (q x)" using Cons.prems by simp
  have rest: "feed (FilteringReducer step predicate) xs c a w = feed step (filter q xs) c a w"
    using Cons.prems by (intro Cons.IH) simp
  show ?case
  proof (cases "q x")
    case False
    then show ?thesis using px rest by simp
  next
    case True
    show ?thesis
    proof (cases "reducer_apply step x c a w")
      case (Inl e)
      then show ?thesis using px True by simp
    next
      case (Inr p)
      obtain c1 w1 where p: "p = (c1, w1)" by (cases p)
      from reducer_apply_keeps[OF Inr[unfolded p]]
      have k: "brk w \<le> brk w1" "\<forall>p<brk w. floats w1 p = floats w p" by auto
      have "\<forall>x\<in>set xs. \<forall>m. (\<forall>p<brk w1. m p = floats w1 p) \<longrightarrow> predicate x m = Inr (q x)"
        using Cons.prems k by (metis list.set_intros(2) order_less_le_trans)
      from Cons.IH[OF this]
      show ?thesis using px True Inr p by simp
    qed
  qed
qed

text \<open>
  C5: the reducer that the filtering transducer builds on \<open>step\<close> returns what \<open>step\<close>
  returns where the predicate holds of the input, and returns the accumulator and leaves
  the state as it is where the predicate fails. So when the predicate's verdict on each
  element of a list is fixed by the memory allocated at the start (\<open>q\<close> is that verdict),
  feeding the list to the filtering reducer is feeding \<open>step\<close> the elements with a
  positive verdict, in their order.
\<close>

theorem filtering_reducer:
  "fst (transducer_apply (FilteringTransducer predicate) step a w) = FilteringReducer step predicate
   \<and> (predicate v (floats w) = Inr True \<longrightarrow>
        reducer_apply (FilteringReducer step predicate) v c a w = reducer_apply step v c a w)
   \<and> (predicate v (floats w) = Inr False \<longrightarrow>
        reducer_apply (FilteringReducer step predicate) v c a w = Inr (c, w))
   \<and> ((\<forall>x\<in>set xs. \<forall>m. (\<forall>p<brk w. m p = floats w p) \<longrightarrow> predicate x m = Inr (q x)) \<longrightarrow>
        feed (FilteringReducer step predicate) xs c a w = feed step (filter q xs) c a w)"
  using feed_filtering[of xs w predicate q step c a]
  by (simp add: filteringTransducerApply_def split_beta)

theorem filtering_reducer_witness:
  "reducer_apply (FilteringReducer IdReducer positiveFloatsOnly)
       (floatArray_element 8192 1) nullValue 8000 world1
     = Inr (floatArray_element 8192 1, world1)
   \<and> reducer_apply (FilteringReducer IdReducer positiveFloatsOnly)
       (floatArray_element 8192 0) nullValue 8000 world1
     = Inr (nullValue, world1)
   \<and> feed (FilteringReducer IdReducer positiveFloatsOnly)
       [floatArray_element 8192 0, floatArray_element 8192 1] nullValue 8000 world1
     = Inr (floatArray_element 8192 1, world1)"
proof -
  note defs = world1_def world0_def floatArray_element_def sizeof_float_def positiveFloatsOnly_def
    accumulateFloatZero_zero_def
  let ?q = "\<lambda>v. address v = 8196"
  have p1: "positiveFloatsOnly (floatArray_element 8192 1) (floats world1) = Inr True"
    by (simp add: defs)
  have p0: "positiveFloatsOnly (floatArray_element 8192 0) (floats world1) = Inr False"
    by (simp add: defs)
  have st: "\<forall>x\<in>set [floatArray_element 8192 0, floatArray_element 8192 1].
      \<forall>m. (\<forall>p<brk world1. m p = floats world1 p) \<longrightarrow> positiveFloatsOnly x m = Inr (?q x)"
    by (simp add: defs)
  have 1: "reducer_apply (FilteringReducer IdReducer positiveFloatsOnly)
       (floatArray_element 8192 1) nullValue 8000 world1
     = reducer_apply IdReducer (floatArray_element 8192 1) nullValue 8000 world1"
    by (rule filtering_reducer[where predicate = positiveFloatsOnly and w = world1
          and v = "floatArray_element 8192 1", THEN conjunct2, THEN conjunct1, THEN mp, OF p1])
  have 2: "reducer_apply (FilteringReducer IdReducer positiveFloatsOnly)
       (floatArray_element 8192 0) nullValue 8000 world1
     = Inr (nullValue, world1)"
    by (rule filtering_reducer[where predicate = positiveFloatsOnly and w = world1
          and v = "floatArray_element 8192 0", THEN conjunct2, THEN conjunct2, THEN conjunct1,
          THEN mp, OF p0])
  have 3: "feed (FilteringReducer IdReducer positiveFloatsOnly)
       [floatArray_element 8192 0, floatArray_element 8192 1] nullValue 8000 world1
     = feed IdReducer (filter ?q [floatArray_element 8192 0, floatArray_element 8192 1])
         nullValue 8000 world1"
    by (rule filtering_reducer[where predicate = positiveFloatsOnly and w = world1
          and q = ?q and xs = "[floatArray_element 8192 0, floatArray_element 8192 1]",
          THEN conjunct2, THEN conjunct2, THEN conjunct2, THEN mp, OF st])
  have f: "filter ?q [floatArray_element 8192 0, floatArray_element 8192 1] = [floatArray_element 8192 1]"
    by (simp add: floatArray_element_def sizeof_float_def)
  show ?thesis
    unfolding 1 2 3 f by (simp add: idReducerApply_def)
qed

section \<open>The mapping transducer\<close>

text \<open>
  C6: the reducer that the mapping transducer builds over the inner reducer \<open>reducer\<close> is a
  new \<^verbatim>\<open>struct MappingReducer\<close> whose \<^verbatim>\<open>reducerResult\<close> starts as the zero of \<open>reducer\<close>. Each
  apply first applies \<open>reducer\<close> to the input and the stored \<^verbatim>\<open>reducerResult\<close>, stores the
  result as the new \<^verbatim>\<open>reducerResult\<close>, and then returns what \<open>step\<close> returns for that new
  \<^verbatim>\<open>reducerResult\<close> as input and the accumulator it was given; a failure of \<open>reducer\<close> is the
  failure of the apply.
\<close>

theorem mapping_reducer:
  "transducer_apply (MappingTransducer reducer) step a w
     = (MappingReducer (brk w) reducer step,
        w\<lparr>brk := brk w + sizeof_MappingReducer, live := (live w)(brk w \<mapsto> a),
          reducerResult := (reducerResult w)(brk w \<mapsto> reducer_zero reducer a)\<rparr>)
   \<and> (reducerResult w self = Some inner \<and> reducer_apply reducer input inner a w = Inr (inner1, w1) \<longrightarrow>
        reducer_apply (MappingReducer self reducer step) input current a w
          = reducer_apply step inner1 current a (w1\<lparr>reducerResult := (reducerResult w1)(self \<mapsto> inner1)\<rparr>))
   \<and> (reducerResult w self = Some inner \<and> reducer_apply reducer input inner a w = Inl e \<longrightarrow>
        reducer_apply (MappingReducer self reducer step) input current a w = Inl e)"
  by (simp add: mappingTransducerApply_def allocator_alloc_def split_beta)

theorem mapping_reducer_witness:
  "reducerResult world2 65536 = Some (accumulateFloatZero 8000)
   \<and> reducer_apply (MappingReducer 65536 AccumulateFloatReducer IdReducer)
       (floatArray_element 8192 1) nullValue 8000 world2
     = Inr (\<lparr>Value.type_tag = TTAG_FLOAT, Value.element_size = 4, address = 65600, allocator = NULL\<rparr>,
            world2\<lparr>brk := 65604, live := (live world2)(65600 \<mapsto> 8000),
              floats := (floats world2)(65600 \<mapsto> 1),
              reducerResult := (reducerResult world2)(65536 \<mapsto>
                \<lparr>Value.type_tag = TTAG_FLOAT, Value.element_size = 4, address = 65600, allocator = NULL\<rparr>)\<rparr>)
   \<and> reducer_apply (MappingReducer 65536 AccumulateFloatReducer IdReducer)
       nullValue nullValue 8000 world2
     = Inl AssertionFailed"
proof -
  let ?v = "\<lparr>Value.type_tag = TTAG_FLOAT, Value.element_size = 4, address = 65600, allocator = NULL\<rparr>"
  let ?w1 = "world2\<lparr>brk := 65604, live := (live world2)(65600 \<mapsto> 8000),
              floats := (floats world2)(65600 \<mapsto> 1)\<rparr>"
  note defs = world2_def world1_def world0_def floatArray_element_def sizeof_float_def
    accumulateFloatZero_zero_def mappingTransducerApply_def allocator_alloc_def
    sizeof_MappingReducer_def accumulateFloatZero_def accumulateFloatApply_def accumulateFloat_def
    floatValue_def nullValue_def
  have w2: "world2 = world1\<lparr>brk := 65600, live := (live world1)(65536 \<mapsto> 8000),
      reducerResult := (reducerResult world1)(65536 \<mapsto> accumulateFloatZero 8000)\<rparr>"
    using mapping_reducer[of AccumulateFloatReducer IdReducer 8000 world1, THEN conjunct1]
    by (simp add: world2_def) (simp add: world1_def world0_def sizeof_MappingReducer_def)
  have 0: "reducerResult world2 65536 = Some (accumulateFloatZero 8000)"
    by (simp add: w2)
  have h1: "reducerResult world2 65536 = Some (accumulateFloatZero 8000)
      \<and> reducer_apply AccumulateFloatReducer (floatArray_element 8192 1) (accumulateFloatZero 8000)
            8000 world2 = Inr (?v, ?w1)"
    by (simp add: defs)
  have h2: "reducerResult world2 65536 = Some (accumulateFloatZero 8000)
      \<and> reducer_apply AccumulateFloatReducer nullValue (accumulateFloatZero 8000)
            8000 world2 = Inl AssertionFailed"
    by (simp add: defs)
  have 1: "reducer_apply (MappingReducer 65536 AccumulateFloatReducer IdReducer)
       (floatArray_element 8192 1) nullValue 8000 world2
     = reducer_apply IdReducer ?v nullValue 8000 (?w1\<lparr>reducerResult := (reducerResult ?w1)(65536 \<mapsto> ?v)\<rparr>)"
    by (rule mapping_reducer[THEN conjunct2, THEN conjunct1, THEN mp, OF h1])
  have 2: "reducer_apply (MappingReducer 65536 AccumulateFloatReducer IdReducer)
       nullValue nullValue 8000 world2 = Inl AssertionFailed"
    by (rule mapping_reducer[THEN conjunct2, THEN conjunct2, THEN mp, OF h2])
  show ?thesis
    unfolding 1 2 by (simp add: 0 idReducerApply_def)
qed

section \<open>The third scenario of the main program\<close>

lemma upt8: "[0..<8] = [0, 1, 2, 3, 4, 5, 6, 7]"
  by (simp add: upt_rec)

text \<open>
  C7: the floats \<open>-1, 1, -2, 2, 3, -3, 4, -4\<close>, reduced through the composition of the
  filtering transducer for positive floats and the mapping transducer over the float
  accumulator. Driven as a stream onto the printing reducer, which returns its input as
  the identity reducer does, the final accumulator is a Float Value whose payload is 10;
  driven again by \<^verbatim>\<open>transduceFloatArray\<close> onto the identity reducer, it is one again. What
  reaches the printing step is 1, 3, 6, 10, as the output shows.
\<close>

theorem main_3_result:
  "\<exists>result again w.
     main_3 8192 8000 range0 world0 = Some (Inr (result, 10, again, 10, w))
     \<and> Value.type_tag result = TTAG_FLOAT \<and> floats w (address result) = Some 10
     \<and> Value.type_tag again = TTAG_FLOAT \<and> floats w (address again) = Some 10
     \<and> stdout w =
         [Text (''3. filter out all negative floats and accumulate'' @ [CHR 0x0A]),
          Text ''input: '', Number (- 1), Text '', '', Number 1, Text '', '', Number (- 2),
          Text '', '', Number 2, Text '', '', Number 3, Text '', '', Number (- 3),
          Text '', '', Number 4, Text '', '', Number (- 4),
          Text (CHR 0x0A # ''print-out: ''), Number 1, Text '', '', Number 3,
          Text '', '', Number 6, Text '', '', Number 10, Text [CHR 0x0A],
          Text ''result is: '', Number 10, Text ('' ; expected: 10.0'' @ [CHR 0x0A]),
          Text (''transduce it again with transduceFloatArray'' @ [CHR 0x0A]),
          Text ''result is: '', Number 10, Text ('' ; expected: 10.0'' @ [CHR 0x0A])]"
  by (simp add: main_3_def world0_def printf_def filteringTransducer_def mappingTransducer_def
      composingTransducer_def allocator_alloc_def printReducer_def reduceStream_floatArrayVSR
      transduceFloatArray_def transduceFloatArray_loop_feed idReducer_def
      upt8 floatArray_element_def sizeof_float_def
      printReducerApply_def printReducerZero_def nullValue_def
      sizeof_FilteringTransducer_def sizeof_MappingTransducer_def sizeof_ComposingTransducer_def
      sizeof_Reducer_def sizeof_FilteringReducer_def sizeof_MappingReducer_def
      sizeof_ComposingReducer_def sizeof_pointer_def sizeof_Value_def
      composingTransducerApply_chain composing_storage_def
      filteringTransducerApply_def mappingTransducerApply_def
      accumulateFloatApply_def accumulateFloat_def floatValue_def accumulateFloatZero_def
      accumulateFloatZero_zero_def positiveFloatsOnly_def composingReducerZero_def
      idReducerApply_def idReducerZero_def filteringReducerZero_def)

section \<open>Ownership of Values\<close>

text \<open>
  C8: \<^verbatim>\<open>floatValue\<close> takes a block from the allocator, stores the float in it and returns a
  Value with the Float tag, the width of a float and the address of the block. The
  allocator field of that Value is not set: it is null, for every allocator passed in,
  as it is for the \<^verbatim>\<open>floatValue(1.0f, &heapAllocator)\<close> of \<^verbatim>\<open>main\<close>.
\<close>

theorem floatValue_allocator_unset:
  "floatValue f a w
     = (\<lparr>Value.type_tag = TTAG_FLOAT, Value.element_size = sizeof_float, address = brk w,
          allocator = NULL\<rparr>,
        w\<lparr>brk := brk w + sizeof_float, live := (live w)(brk w \<mapsto> a),
          floats := (floats w)(brk w \<mapsto> f)\<rparr>)
   \<and> allocator (fst (floatValue 1 8000 world0)) = NULL"
  by (simp add: floatValue_def allocator_alloc_def)

text \<open>
  C9, as stated, fails on a borrowed Value that refers to an element of an array.
  \<^verbatim>\<open>freeValue\<close> has no test of the allocator field: it calls \<^verbatim>\<open>allocator_free\<close> with the
  null allocator and the address of the element. With an \<^verbatim>\<open>allocator_free\<close> that releases
  the block it is given, the element is gone from memory; with one that goes through the
  allocator's struct, the call fails; and with one that does nothing at all, the address
  of the handle is cleared all the same, so the call is not without effect.
\<close>

theorem freeValue_borrowed_counterexample:
  "allocator (floatArray_element 8192 1) = NULL
   \<and> address (floatArray_element 8192 1) = 8196
   \<and> floats world1 8196 = Some 1
   \<and> freeValue free_block (floatArray_element 8192 1) world1
       = Inr (floatArray_element 8192 1\<lparr>address := NULL\<rparr>,
              world1\<lparr>floats := (floats world1)(8196 := None), live := (live world1)(8196 := None)\<rparr>)
   \<and> floats (world1\<lparr>floats := (floats world1)(8196 := None),
          live := (live world1)(8196 := None)\<rparr>) 8196 = None
   \<and> freeValue free_through (floatArray_element 8192 1) world1 = Inl InvalidRead
   \<and> freeValue (\<lambda>a p w. Inr w) (floatArray_element 8192 1) world1
       = Inr (floatArray_element 8192 1\<lparr>address := NULL\<rparr>, world1)
   \<and> floatArray_element 8192 1\<lparr>address := NULL\<rparr> \<noteq> floatArray_element 8192 1"
  by (simp add: freeValue_def free_block_def free_through_def floatArray_element_def
      sizeof_float_def world1_def world0_def accumulateFloatZero_zero_def)

text \<open>
  C9, amended: \<^verbatim>\<open>freeValue\<close> treats every Value alike, whatever \<^verbatim>\<open>allocator_free\<close> is. It
  calls \<^verbatim>\<open>allocator_free\<close> with the allocator field of the handle, null or not, and the
  address; when that call returns, the state is the one it returns and the address and
  the allocator of the handle are cleared; when it fails, \<^verbatim>\<open>freeValue\<close> fails. So the
  call leaves a handle as it was only if its address and allocator were null already, as
  they are in the Null Value, and what happens to the memory of a Value without
  allocator is what \<^verbatim>\<open>allocator_free\<close> does with a null allocator.
\<close>

theorem freeValue_any_allocator_free:
  "(allocator_free (allocator value) (address value) w = Inr w' \<longrightarrow>
      freeValue allocator_free value w = Inr (value\<lparr>address := NULL, allocator := NULL\<rparr>, w'))
   \<and> (allocator_free (allocator value) (address value) w = Inl e \<longrightarrow>
      freeValue allocator_free value w = Inl e)
   \<and> (freeValue allocator_free value w = Inr (value, w') \<longrightarrow>
      address value = NULL \<and> allocator value = NULL)"
proof (intro conjI impI)
  assume "allocator_free (allocator value) (address value) w = Inr w'"
  then show "freeValue allocator_free value w
      = Inr (value\<lparr>address := NULL, allocator := NULL\<rparr>, w')"
    by (simp add: freeValue_def)
next
  assume "allocator_free (allocator value) (address value) w = Inl e"
  then show "freeValue allocator_free value w = Inl e"
    by (simp add: freeValue_def)
next
  assume r: "freeValue allocator_free value w = Inr (value, w')"
  then have "value\<lparr>address := NULL, allocator := NULL\<rparr> = value"
    by (auto simp: freeValue_def split: sum.splits)
  then have "address (value\<lparr>address := NULL, allocator := NULL\<rparr>) = address value"
    "allocator (value\<lparr>address := NULL, allocator := NULL\<rparr>) = allocator value"
    by simp_all
  then show "address value = NULL" "allocator value = NULL" by simp_all
qed

theorem freeValue_any_allocator_free_witness:
  "freeValue free_block (fst (floatValue 1 8000 world1)\<lparr>allocator := 8000\<rparr>)
       (snd (floatValue 1 8000 world1))
     = Inr (fst (floatValue 1 8000 world1)\<lparr>address := NULL\<rparr>,
            snd (floatValue 1 8000 world1)
              \<lparr>floats := (floats (snd (floatValue 1 8000 world1)))(65536 := None),
                live := (live (snd (floatValue 1 8000 world1)))(65536 := None)\<rparr>)
   \<and> freeValue free_through (floatArray_element 8192 1) world1 = Inl InvalidRead
   \<and> freeValue (\<lambda>a p w. Inr w) nullValue world1 = Inr (nullValue, world1)
   \<and> address nullValue = NULL \<and> allocator nullValue = NULL"
proof -
  let ?o = "fst (floatValue 1 8000 world1)\<lparr>allocator := 8000\<rparr>"
  let ?w = "snd (floatValue 1 8000 world1)"
  let ?w' = "?w\<lparr>floats := (floats ?w)(65536 := None), live := (live ?w)(65536 := None)\<rparr>"
  let ?b = "floatArray_element 8192 1"
  note defs = floatValue_def allocator_alloc_def world1_def world0_def sizeof_float_def
  have h1: "free_block (allocator ?o) (address ?o) ?w = Inr ?w'"
    by (simp add: free_block_def defs)
  have h2: "free_through (allocator ?b) (address ?b) world1 = Inl InvalidRead"
    by (simp add: free_through_def floatArray_element_def)
  have 1: "freeValue free_block ?o ?w = Inr (?o\<lparr>address := NULL, allocator := NULL\<rparr>, ?w')"
    by (rule freeValue_any_allocator_free[of free_block "?o" "?w", THEN conjunct1, THEN mp, OF h1])
  have 2: "freeValue free_through ?b world1 = Inl InvalidRead"
    by (rule freeValue_any_allocator_free[of free_through "?b" world1, THEN conjunct2, THEN conjunct1, THEN mp, OF h2])
  have h3: "freeValue (\<lambda>a p w. Inr w) nullValue world1 = Inr (nullValue, world1)"
    by (simp add: freeValue_def nullValue_def)
  have 3: "address nullValue = NULL \<and> allocator nullValue = NULL"
    by (rule freeValue_any_allocator_free[of "\<lambda>a p w. Inr w" nullValue world1, THEN conjunct2, THEN conjunct2, THEN mp, OF h3])
  have o: "?o\<lparr>address := NULL, allocator := NULL\<rparr> = fst (floatValue 1 8000 world1)\<lparr>address := NULL\<rparr>"
    by (simp add: defs)
  show ?thesis
    using 1 2 h3 3 unfolding o by (intro conjI) simp_all
qed


end
